theory Spec2Isabelle
  imports Complex_Main "HOL-Library.AList" "HOL-Library.Char_ord" "HOL-Library.List_Lexorder"
begin

section \<open>Python values and errors\<close>

text \<open>
  The web front end of the ladder (\<^verbatim>\<open>ladderweb/__init__.py\<close>) reads two tables,
  \<^verbatim>\<open>players\<close> and \<open>outcomes\<close>, and turns them into JSON rows and chart data.
  Every function that can raise is modelled with a result of type \<open>py_error + 'a\<close>;
  \<open>Inl\<close> carries the exception Python would raise.

  Numbers: Python integers are \<open>int\<close>; Python floats and the ratings are modelled by
  exact rationals (\<open>rat\<close>), so the rounding error of binary floating point is not
  part of the model.
\<close>

datatype py_error = ValueError | ZeroDivisionError

section \<open>Time-series resampler\<close>

text \<open>
  Python's \<^verbatim>\<open>round(x)\<close> on a float: the nearest integer, a tie going to the even
  neighbour.
\<close>

definition py_round :: "rat \<Rightarrow> int" where
  "py_round x =
     (let f = \<lfloor>x\<rfloor>; r = x - of_int f
      in if r < 1 / 2 then f
         else if 1 / 2 < r then f + 1
         else if even f then f else f + 1)"

text \<open>
  \<^verbatim>\<open>numpy.interp(x, xp, fp)\<close>, one-dimensional piecewise linear interpolation, as
  numpy documents and implements it: a query left of the first sample point yields the
  first value, a query at or right of the last sample point yields the last value
  (there is no extrapolation), and a query with \<open>xp[j] \<le> x < xp[j+1]\<close> yields
  \<open>slope * (x - xp[j]) + fp[j]\<close> with \<open>slope = (fp[j+1] - fp[j]) / (xp[j+1] - xp[j])\<close>.
  \<open>interp_from\<close> walks the sample points from the left for a query that is not left
  of the first one; at the last sample point it yields the last value. Its equation for
  an empty \<open>fp\<close> and the default of \<open>interp_at\<close> are never reached through
  \<open>np_interp\<close>, which raises on such input.
\<close>

fun interp_from :: "rat list \<Rightarrow> rat list \<Rightarrow> rat \<Rightarrow> rat" where
  "interp_from (x0 # x1 # xp) (y0 # y1 # fp) x =
     (if x < x1 then (y1 - y0) / (x1 - x0) * (x - x0) + y0
      else interp_from (x1 # xp) (y1 # fp) x)"
| "interp_from xp (y0 # fp) x = y0"
| "interp_from xp [] x = 0"

definition interp_at :: "rat list \<Rightarrow> rat list \<Rightarrow> rat \<Rightarrow> rat" where
  "interp_at xp fp x =
     (case (xp, fp) of
        (x0 # _, y0 # _) \<Rightarrow> if x < x0 then y0 else interp_from xp fp x
      | _ \<Rightarrow> 0)"

text \<open>
  numpy raises \<^verbatim>\<open>ValueError\<close> when the array of sample points is empty and when
  \<open>xp\<close> and \<open>fp\<close> differ in length.
\<close>

definition np_interp :: "rat list \<Rightarrow> rat list \<Rightarrow> rat list \<Rightarrow> py_error + rat list" where
  "np_interp xs xp fp =
     (if xp = [] then Inl ValueError
      else if length fp \<noteq> length xp then Inl ValueError
      else Inr (map (interp_at xp fp) xs))"

text \<open>
  \<^verbatim>\<open>
  def _scaled(a, m):
      n = len(a)
      nr = range(n)
      mr = [x * n / m for x in range(m)]
      return [round(x) for x in np.interp(mr, nr, a)]
  \<close>
  The division \<open>x * n / m\<close> only runs for \<open>x\<close> in \<open>range(m)\<close>, hence with
  \<open>m \<ge> 1\<close>: it cannot divide by zero.
\<close>

definition scaled :: "rat list \<Rightarrow> nat \<Rightarrow> py_error + int list" where
  "scaled a m =
     (let n = length a;
          nr = map rat_of_nat [0..<n];
          mr = map (\<lambda>x. rat_of_nat x * rat_of_nat n / rat_of_nat m) [0..<m]
      in case np_interp mr nr a of
           Inl e \<Rightarrow> Inl e
         | Inr ys \<Rightarrow> Inr (map py_round ys))"

section \<open>The ledger: players and outcomes\<close>

text \<open>
  The two tables the queries read. A rating is a number (\<open>rat\<close>), counts are Python
  integers. A timestamp is a number of seconds, counted so that \<open>t div 86400\<close> is the
  proleptic Gregorian ordinal of its calendar day (Python's \<^verbatim>\<open>date.toordinal()\<close>);
  a calendar date is represented by that ordinal, which stands for its ISO string
  \<^verbatim>\<open>'%Y-%m-%d'\<close> one to one.
\<close>

record player =
  profile_id :: int
  profile_name :: string
  avatar_url :: string
  wins :: int
  losses :: int
  prv_rating :: rat
  rating :: rat
  banned :: bool

record outcome =
  hash :: string
  start_time :: int
  end_time :: int
  profile_id0 :: int
  profile_id1 :: int
  rating_0_prv :: rat
  rating_0 :: rat
  rating_1_prv :: rat
  rating_1 :: rat
  selected_faction_0 :: string
  selected_faction_1 :: string
  map_title :: string
  filename :: string

record db =
  players :: "player list"
  outcomes :: "outcome list"

text \<open>
  SQL \<^verbatim>\<open>SELECT COUNT(*), k FROM ... GROUP BY k\<close> over the listed values of \<open>k\<close>: one row
  per distinct value with the number of its occurrences. SQL leaves the order of the
  groups open; SQLite emits them in ascending order of the key, and so does the model.
\<close>

definition group_count :: "'k::linorder list \<Rightarrow> ('k \<times> int) list" where
  "group_count ks = map (\<lambda>k. (k, int (count_list ks k))) (sorted_list_of_set (set ks))"

text \<open>
  A Python \<^verbatim>\<open>dict\<close> is an association list in insertion order with distinct keys.
  \<open>dict_update\<close> is \<^verbatim>\<open>d.update(items)\<close>: an existing key keeps its place and gets the
  new value, a new key is appended. \<open>dict_of\<close> is a dict comprehension or \<^verbatim>\<open>dict(items)\<close>;
  \<open>dict_get d k v\<close> is \<^verbatim>\<open>d.get(k, v)\<close>.
\<close>

definition dict_update :: "('k \<times> 'v) list \<Rightarrow> ('k \<times> 'v) list \<Rightarrow> ('k \<times> 'v) list" where
  "dict_update d items = foldl (\<lambda>acc (k, v). AList.update k v acc) d items"

definition dict_of :: "('k \<times> 'v) list \<Rightarrow> ('k \<times> 'v) list" where
  "dict_of items = dict_update [] items"

definition dict_get :: "('k \<times> 'v) list \<Rightarrow> 'k \<Rightarrow> 'v \<Rightarrow> 'v" where
  "dict_get d k v = (case map_of d k of None \<Rightarrow> v | Some w \<Rightarrow> w)"

text \<open>Python's true division \<^verbatim>\<open>a / b\<close> of two integers.\<close>

definition py_truediv :: "int \<Rightarrow> int \<Rightarrow> py_error + rat" where
  "py_truediv a b = (if b = 0 then Inl ZeroDivisionError else Inr (rat_of_int a / rat_of_int b))"

text \<open>Python's \<^verbatim>\<open>range(k)\<close> for an integer \<open>k\<close>: empty when \<open>k \<le> 0\<close>.\<close>

definition py_range :: "int \<Rightarrow> int list" where
  "py_range k = map int [0..<nat k]"

section \<open>Links and escaping\<close>

text \<open>
  \<^verbatim>\<open>url_for('player', profile_id=i) + _args_url()\<close> and
  \<^verbatim>\<open>url_for('replay', replay_hash=h) + _args_url()\<close>: a link is modelled by its endpoint
  and argument. The query string \<^verbatim>\<open>_args_url()\<close> is the same for every link of one
  request and is left out.
\<close>

datatype url = PlayerUrl int | ReplayUrl string

text \<open>\<^verbatim>\<open>markupsafe.escape\<close>: the five HTML-special characters become entities.\<close>

definition escape_char :: "char \<Rightarrow> string" where
  "escape_char c =
     (if c = CHR ''&'' then ''&amp;''
      else if c = CHR ''<'' then ''&lt;''
      else if c = CHR ''>'' then ''&gt;''
      else if c = CHR 0x27 then ''&#39;''
      else if c = CHR 0x22 then ''&#34;''
      else [c])"

definition escape :: "string \<Rightarrow> string" where
  "escape s = concat (map escape_char s)"

text \<open>A name read through a \<^verbatim>\<open>LEFT JOIN\<close> may be NULL; \<^verbatim>\<open>escape(None)\<close> is \<^verbatim>\<open>'None'\<close>.\<close>

definition escape_opt :: "string option \<Rightarrow> string" where
  "escape_opt n = (case n of None \<Rightarrow> ''None'' | Some s \<Rightarrow> escape s)"

section \<open>Leaderboard\<close>

text \<open>
  \<^verbatim>\<open>
  SELECT profile_id, profile_name, avatar_url, wins, losses, prv_rating, rating
  FROM players WHERE rating > 0 AND NOT banned ORDER BY rating DESC
  \<close>
  SQL leaves the order of equal ratings open; the model keeps the table's order among
  them (a stable sort).
\<close>

definition rankable_players :: "db \<Rightarrow> player list" where
  "rankable_players d =
     sort_key (\<lambda>p. - rating p) (filter (\<lambda>p. 0 < rating p \<and> \<not> banned p) (players d))"

record leaderboard_row =
  row_id :: nat
  lb_name :: string
  lb_url :: url
  lb_avatar_url :: string
  rating_value :: rat
  rating_diff :: rat
  played :: int
  lb_wins :: int
  lb_losses :: int
  winrate :: rat

text \<open>
  \<^verbatim>\<open>
  rows = []
  for i, (profile_id, ..., rating) in enumerate(cur, 1):
      rows.append(dict(row_id=i, player=dict(name=escape(profile_name), url=..., avatar_url=avatar_url),
                       rating=dict(value=rating, diff=rating - prv_rating),
                       played=wins + losses, wins=wins, losses=losses,
                       winrate=wins / (wins + losses) * 100))
  return jsonify(rows)
  \<close>
  The division raises \<^verbatim>\<open>ZeroDivisionError\<close> when \<open>wins + losses = 0\<close>, which ends
  the request without any row.
\<close>

fun leaderboard_rows :: "nat \<Rightarrow> player list \<Rightarrow> py_error + leaderboard_row list" where
  "leaderboard_rows i [] = Inr []"
| "leaderboard_rows i (p # ps) =
     (case py_truediv (wins p) (wins p + losses p) of
        Inl e \<Rightarrow> Inl e
      | Inr q \<Rightarrow>
          (case leaderboard_rows (Suc i) ps of
             Inl e \<Rightarrow> Inl e
           | Inr rows \<Rightarrow>
               Inr (\<lparr>row_id = i,
                     lb_name = escape (profile_name p),
                     lb_url = PlayerUrl (profile_id p),
                     lb_avatar_url = avatar_url p,
                     rating_value = rating p,
                     rating_diff = rating p - prv_rating p,
                     played = wins p + losses p,
                     lb_wins = wins p,
                     lb_losses = losses p,
                     winrate = q * 100\<rparr> # rows)))"

definition leaderboard_js :: "db \<Rightarrow> py_error + leaderboard_row list" where
  "leaderboard_js d = leaderboard_rows 1 (rankable_players d)"

section \<open>Map titles\<close>

text \<open>
  \<^verbatim>\<open>
  _tag_regex = re.compile(r'\s*\[[^\]]*\]')
  def _stripped_map_name(map_name):
      return _tag_regex.sub('', map_name).strip()
  \<close>
  A character is a code point below 256. \<open>is_space\<close> is Python's \<^verbatim>\<open>str.isspace\<close> on
  those, which is also what \<^verbatim>\<open>\s\<close> matches in a \<^verbatim>\<open>str\<close> pattern.
\<close>

definition is_space :: "char \<Rightarrow> bool" where
  "is_space c =
     (let n = (of_char c :: nat)
      in (9 \<le> n \<and> n \<le> 13) \<or> (28 \<le> n \<and> n \<le> 32) \<or> n = 133 \<or> n = 160)"

text \<open>
  A match of the pattern at the start of \<open>s\<close>, returning what follows the match.
  \<^verbatim>\<open>\s*\<close> is greedy and the next character must be \<^verbatim>\<open>[\<close>, so it takes the whole run
  of white space; \<^verbatim>\<open>[^\]]*\<close> runs up to the first \<^verbatim>\<open>]\<close>, which must exist. Giving back
  characters cannot turn a failed attempt into a match.
\<close>

definition tag_match :: "string \<Rightarrow> string option" where
  "tag_match s =
     (case dropWhile is_space s of
        [] \<Rightarrow> None
      | c # r \<Rightarrow>
          if c = CHR ''['' then
            (case dropWhile (\<lambda>c. c \<noteq> CHR '']'') r of
               [] \<Rightarrow> None
             | _ # r' \<Rightarrow> Some r')
          else None)"

text \<open>
  \<^verbatim>\<open>_tag_regex.sub('', s)\<close>: scanning from the left, the leftmost match is dropped and
  the scan goes on behind it; where no match starts, the character is kept. A match is
  never empty, so the scan always advances.
\<close>

function tag_sub :: "string \<Rightarrow> string" where
  "tag_sub [] = []"
| "tag_sub (c # cs) =
     (case tag_match (c # cs) of
        Some r \<Rightarrow> tag_sub r
      | None \<Rightarrow> c # tag_sub cs)"
  by pat_completeness auto
termination
proof (relation "measure length")
  fix c cs r
  assume m: "tag_match (c # cs) = Some r"
  from m obtain b t e where t: "dropWhile is_space (c # cs) = b # t"
    and r: "dropWhile (\<lambda>c. c \<noteq> CHR '']'') t = e # r"
    by (auto simp: tag_match_def split: list.splits if_splits)
  have "length r < length t"
    using length_dropWhile_le [of "\<lambda>c. c \<noteq> CHR '']''" t] r by simp
  moreover have "length t < length (c # cs)"
    using length_dropWhile_le [of is_space "c # cs"] t by simp
  ultimately show "(r, c # cs) \<in> measure length" by simp
qed simp_all

text \<open>\<^verbatim>\<open>str.strip()\<close>: leading and trailing white space removed.\<close>

definition py_strip :: "string \<Rightarrow> string" where
  "py_strip s = rev (dropWhile is_space (rev (dropWhile is_space s)))"

definition stripped_map_name :: "string \<Rightarrow> string" where
  "stripped_map_name map_name = py_strip (tag_sub map_name)"

text \<open>
  A bracketed tag occurs in \<open>s\<close>: an opening bracket with a closing bracket somewhere
  behind it. This is the same as \<^verbatim>\<open>\[[^\]]*\]\<close> matching somewhere in \<open>s\<close>, since the
  first closing bracket behind the opening one ends a match.
\<close>

definition tagged :: "string \<Rightarrow> bool" where
  "tagged s = (\<exists>a b c. s = a @ CHR ''['' # b @ CHR '']'' # c)"

section \<open>Palette\<close>

text \<open>
  \<^verbatim>\<open>colorsys.hls_to_rgb\<close> and its helper \<^verbatim>\<open>_v\<close>, then
  \<^verbatim>\<open>
  def _hexc(fc):
      return '#' + ''.join('%02X' % int(fc[i] * 255) for i in range(3))
  def _get_colors(n):
      return [_hexc(colorsys.hls_to_rgb(i / n, .4, .6)) for i in range(n)]
  \<close>
  in exact arithmetic. A colour component lies in \<open>[0, 1]\<close>, so \<^verbatim>\<open>'%02X'\<close> prints
  two hexadecimal digits.
\<close>

definition colorsys_v :: "rat \<Rightarrow> rat \<Rightarrow> rat \<Rightarrow> rat" where
  "colorsys_v m1 m2 hue0 =
     (let hue = hue0 - of_int \<lfloor>hue0\<rfloor>
      in if hue < 1 / 6 then m1 + (m2 - m1) * hue * 6
         else if hue < 1 / 2 then m2
         else if hue < 2 / 3 then m1 + (m2 - m1) * (2 / 3 - hue) * 6
         else m1)"

definition hls_to_rgb :: "rat \<Rightarrow> rat \<Rightarrow> rat \<Rightarrow> rat \<times> rat \<times> rat" where
  "hls_to_rgb h l s =
     (if s = 0 then (l, l, l)
      else let m2 = (if l \<le> 1 / 2 then l * (1 + s) else l + s - l * s);
               m1 = 2 * l - m2
           in (colorsys_v m1 m2 (h + 1 / 3), colorsys_v m1 m2 h, colorsys_v m1 m2 (h - 1 / 3)))"

definition hex_digit :: "nat \<Rightarrow> char" where
  "hex_digit n = ''0123456789ABCDEF'' ! (n mod 16)"

definition hex2 :: "rat \<Rightarrow> string" where
  "hex2 v = (let k = nat \<lfloor>v * 255\<rfloor> in [hex_digit (k div 16), hex_digit k])"

definition hexc :: "rat \<times> rat \<times> rat \<Rightarrow> string" where
  "hexc fc = (case fc of (r, g, b) \<Rightarrow> ''#'' @ hex2 r @ hex2 g @ hex2 b)"

definition get_colors :: "nat \<Rightarrow> string list" where
  "get_colors n = map (\<lambda>i. hexc (hls_to_rgb (rat_of_nat i / rat_of_nat n) (2 / 5) (3 / 5))) [0..<n]"

section \<open>Faction and map histograms\<close>

text \<open>
  The chart data of a histogram; \<open>HistEmpty\<close> is the triple \<^verbatim>\<open>[], [], []\<close> that the
  global histograms return for an empty ledger.
\<close>

record hist_stats =
  hs_names :: "string list"
  hs_data :: "int list"
  hs_total :: int
  hs_colors :: "string list"

datatype hist_result = HistEmpty | Hist hist_stats

text \<open>
  \<^verbatim>\<open>
  def _get_global_faction_stats(db):
      hist = {}
      # XXX: clumsy, patch welcome
      for i in range(2):
          cur = db.execute(f'SELECT COUNT(*) AS count, selected_faction_{i} AS faction
                             FROM outcomes GROUP BY selected_faction_{i}')
          hist.update({r['faction']: r['count'] for r in cur})
      hist = hist.items()
      if not hist:
          return [], [], []
      faction_names, faction_data = zip(*hist)
      faction_colors = _get_colors(len(hist))
      return dict(names=..., data=..., total=sum(faction_data), colors=faction_colors)
  \<close>
  \<open>global_faction_hist\<close> is \<open>hist\<close> after the two rounds of the loop.
\<close>

definition global_faction_hist :: "db \<Rightarrow> (string \<times> int) list" where
  "global_faction_hist d =
     (let hist0 = dict_update [] (dict_of (group_count (map selected_faction_0 (outcomes d))));
          hist1 = dict_update hist0 (dict_of (group_count (map selected_faction_1 (outcomes d))))
      in hist1)"

definition get_global_faction_stats :: "db \<Rightarrow> hist_result" where
  "get_global_faction_stats d =
     (let hist = global_faction_hist d
      in if hist = [] then HistEmpty
         else Hist \<lparr>hs_names = map fst hist,
                    hs_data = map snd hist,
                    hs_total = sum_list (map snd hist),
                    hs_colors = get_colors (length hist)\<rparr>)"

text \<open>
  \<^verbatim>\<open>
  SELECT COUNT(*)/2 AS count,
         (CASE WHEN o.profile_id0=:pid THEN selected_faction_0
               WHEN o.profile_id1=:pid THEN selected_faction_1 END) AS faction
  FROM outcomes o LEFT JOIN players p ON p.profile_id IN (o.profile_id0, o.profile_id1)
  WHERE :pid IN (o.profile_id0, o.profile_id1)
  GROUP BY faction
  \<close>
  The join gives every outcome one row per player whose id is one of its two
  participants, and one row when there is none; the groups count joined rows, halved
  by SQL's integer division.
\<close>

definition own_faction :: "int \<Rightarrow> outcome \<Rightarrow> string" where
  "own_faction pid oc =
     (if profile_id0 oc = pid then selected_faction_0 oc else selected_faction_1 oc)"

definition join_rows :: "db \<Rightarrow> outcome \<Rightarrow> nat" where
  "join_rows d oc =
     max 1 (length (filter (\<lambda>p. profile_id p = profile_id0 oc \<or> profile_id p = profile_id1 oc)
                      (players d)))"

definition player_faction_hist :: "db \<Rightarrow> int \<Rightarrow> (string \<times> int) list" where
  "player_faction_hist d pid =
     map (\<lambda>(f, c). (f, c div 2))
       (group_count
          (concat (map (\<lambda>oc. replicate (join_rows d oc) (own_faction pid oc))
                     (filter (\<lambda>oc. pid = profile_id0 oc \<or> pid = profile_id1 oc) (outcomes d)))))"

text \<open>
  \<^verbatim>\<open>
  hist = [(r['faction'], r['count']) for r in cur]
  faction_names, faction_data = zip(*hist)
  faction_colors = _get_colors(len(hist))
  return dict(names=list(faction_names), data=list(faction_data),
              total=sum(faction_data), colors=faction_colors)
  \<close>
  \<^verbatim>\<open>zip(*hist)\<close> of an empty list yields nothing, and unpacking it into two names
  raises \<^verbatim>\<open>ValueError\<close>; of a non-empty list of pairs it yields the two columns.
\<close>

definition unzip_pairs :: "('a \<times> 'b) list \<Rightarrow> py_error + ('a list \<times> 'b list)" where
  "unzip_pairs hist = (if hist = [] then Inl ValueError else Inr (map fst hist, map snd hist))"

definition get_player_faction_stats :: "db \<Rightarrow> int \<Rightarrow> py_error + hist_stats" where
  "get_player_faction_stats d pid =
     (let hist = player_faction_hist d pid
      in case unzip_pairs hist of
           Inl e \<Rightarrow> Inl e
         | Inr (faction_names, faction_data) \<Rightarrow>
             Inr \<lparr>hs_names = faction_names,
                  hs_data = faction_data,
                  hs_total = sum_list faction_data,
                  hs_colors = get_colors (length hist)\<rparr>)"

text \<open>
  \<^verbatim>\<open>
  def _get_player_map_stats(db, profile_id):
      # SELECT COUNT(*) AS count, map_title FROM outcomes WHERE profile_id0=:pid GROUP BY map_title
      hist_wins = {r['map_title']: r['count'] for r in cur}
      # SELECT -COUNT(*) AS count, map_title FROM outcomes WHERE profile_id1=:pid GROUP BY map_title
      hist_losses = {r['map_title']: r['count'] for r in cur}
      map_names = sorted(list(set(hist_wins.keys()) | set(hist_losses.keys())))
      map_win_data = [hist_wins.get(m, 0) for m in map_names]
      map_loss_data = [hist_losses.get(m, 0) for m in map_names]
      return dict(names=map_names, win_data=map_win_data, loss_data=map_loss_data)
  \<close>
\<close>

record map_stats =
  ms_names :: "string list"
  win_data :: "int list"
  loss_data :: "int list"

definition hist_wins :: "db \<Rightarrow> int \<Rightarrow> (string \<times> int) list" where
  "hist_wins d pid =
     dict_of (group_count (map map_title (filter (\<lambda>oc. profile_id0 oc = pid) (outcomes d))))"

definition hist_losses :: "db \<Rightarrow> int \<Rightarrow> (string \<times> int) list" where
  "hist_losses d pid =
     dict_of (map (\<lambda>(k, c). (k, - c))
                (group_count (map map_title (filter (\<lambda>oc. profile_id1 oc = pid) (outcomes d)))))"

definition get_player_map_stats :: "db \<Rightarrow> int \<Rightarrow> map_stats" where
  "get_player_map_stats d pid =
     (let map_names = sorted_list_of_set
                        (set (map fst (hist_wins d pid)) \<union> set (map fst (hist_losses d pid)))
      in \<lparr>ms_names = map_names,
          win_data = map (\<lambda>m. dict_get (hist_wins d pid) m 0) map_names,
          loss_data = map (\<lambda>m. dict_get (hist_losses d pid) m 0) map_names\<rparr>)"

section \<open>Per-player match log\<close>

text \<open>
  \<^verbatim>\<open>
  SELECT hash, end_time,
         strftime('%M:%S', julianday(end_time) - julianday(start_time)) AS duration,
         profile_id0, profile_id1,
         rating_0 - rating_0_prv AS diff0, rating_1 - rating_1_prv AS diff1,
         p0.profile_name AS p0_name, p1.profile_name AS p1_name,
         p0.banned AS p0_banned, p1.banned AS p1_banned, map_title
  FROM outcomes o
  LEFT JOIN players p0 ON p0.profile_id = o.profile_id0
  LEFT JOIN players p1 ON p1.profile_id = o.profile_id1
  WHERE :pid in (o.profile_id0, o.profile_id1)
  ORDER BY o.end_time DESC
  \<close>
  \<open>profile_id\<close> is the key of \<open>players\<close>, so each join finds at most one player; a
  participant without a player record gives NULL columns (\<open>None\<close>). The order of
  equal end times is open in SQL; the model keeps the table's order among them.
\<close>

record match_row =
  m_hash :: string
  m_end_time :: int
  m_duration :: string
  m_profile_id0 :: int
  m_profile_id1 :: int
  m_diff0 :: rat
  m_diff1 :: rat
  m_p0_name :: "string option"
  m_p1_name :: "string option"
  m_p0_banned :: "bool option"
  m_p1_banned :: "bool option"
  m_map_title :: string

definition find_player :: "db \<Rightarrow> int \<Rightarrow> player option" where
  "find_player d i = find (\<lambda>p. profile_id p = i) (players d)"

text \<open>\<^verbatim>\<open>strftime('%M:%S', ...)\<close> of a time difference: minutes and seconds, two digits each.\<close>

definition digit2 :: "nat \<Rightarrow> string" where
  "digit2 n = [''0123456789'' ! ((n div 10) mod 10), ''0123456789'' ! (n mod 10)]"

definition fmt_duration :: "int \<Rightarrow> string" where
  "fmt_duration secs = digit2 (nat ((secs div 60) mod 60)) @ '':'' @ digit2 (nat (secs mod 60))"

definition joined_row :: "db \<Rightarrow> outcome \<Rightarrow> match_row" where
  "joined_row d oc =
     \<lparr>m_hash = hash oc,
      m_end_time = end_time oc,
      m_duration = fmt_duration (end_time oc - start_time oc),
      m_profile_id0 = profile_id0 oc,
      m_profile_id1 = profile_id1 oc,
      m_diff0 = rating_0 oc - rating_0_prv oc,
      m_diff1 = rating_1 oc - rating_1_prv oc,
      m_p0_name = map_option profile_name (find_player d (profile_id0 oc)),
      m_p1_name = map_option profile_name (find_player d (profile_id1 oc)),
      m_p0_banned = map_option banned (find_player d (profile_id0 oc)),
      m_p1_banned = map_option banned (find_player d (profile_id1 oc)),
      m_map_title = map_title oc\<rparr>"

definition player_games_query :: "db \<Rightarrow> int \<Rightarrow> match_row list" where
  "player_games_query d pid =
     map (joined_row d)
       (sort_key (\<lambda>oc. - end_time oc)
          (filter (\<lambda>oc. pid = profile_id0 oc \<or> pid = profile_id1 oc) (outcomes d)))"

text \<open>Python's truth value of a column that may be NULL: \<^verbatim>\<open>None\<close> is false.\<close>

definition truthy :: "bool option \<Rightarrow> bool" where
  "truthy b = (case b of None \<Rightarrow> False | Some v \<Rightarrow> v)"

record game =
  g_date :: int
  g_opponent :: "(string \<times> url) option"
  g_map :: string
  g_outcome_desc :: string
  g_outcome_diff :: rat
  g_duration :: string
  g_replay :: "(string \<times> url \<times> bool) option"

text \<open>
  The entry built for one row, from the values the two branches of the loop set
  (\<open>diff\<close>, \<open>opponent\<close>, \<open>opponent_id\<close>, \<open>opponent_banned\<close>, \<open>outcome\<close>).
  \<open>sa\<close> is \<^verbatim>\<open>mods[cur_mod].get('supports_analysis', False)\<close>, read from the mod registry
  of the request.
\<close>

definition mk_game ::
  "bool \<Rightarrow> match_row \<Rightarrow> rat \<Rightarrow> string \<Rightarrow> int \<Rightarrow> bool option \<Rightarrow> string \<Rightarrow> game" where
  "mk_game sa m diff opponent opponent_id opponent_banned outcome_desc =
     \<lparr>g_date = m_end_time m,
      g_opponent = (if \<not> truthy opponent_banned then Some (opponent, PlayerUrl opponent_id) else None),
      g_map = stripped_map_name (m_map_title m),
      g_outcome_desc = outcome_desc,
      g_outcome_diff = diff,
      g_duration = m_duration m,
      g_replay = (if \<not> truthy opponent_banned then Some (m_hash m, ReplayUrl (m_hash m), sa) else None)\<rparr>"

text \<open>
  \<^verbatim>\<open>
  games = []
  for match in cur:
      if match['profile_id0'] == profile_id:
          ...; banned = match['p0_banned']; outcome = 'Won'
      elif match['profile_id1'] == profile_id:
          ...; banned = match['p1_banned']; outcome = 'Lost'
      else:
          continue  # XXX shouldn't happen, assert?
      if banned:
          break
      game = dict(...)
      games.append(game)
  return jsonify(games)
  \<close>
  \<open>games_loop\<close> is the loop over the remaining rows with \<open>games\<close> as accumulated so
  far; \<^verbatim>\<open>break\<close> returns the accumulator, \<^verbatim>\<open>continue\<close> goes on with it unchanged.
\<close>

fun games_loop :: "bool \<Rightarrow> int \<Rightarrow> match_row list \<Rightarrow> game list \<Rightarrow> game list" where
  "games_loop sa pid [] games = games"
| "games_loop sa pid (m # ms) games =
     (if m_profile_id0 m = pid then
        (if truthy (m_p0_banned m) then games
         else games_loop sa pid ms
                (games @ [mk_game sa m (m_diff0 m) (escape_opt (m_p1_name m)) (m_profile_id1 m)
                            (m_p1_banned m) ''Won'']))
      else if m_profile_id1 m = pid then
        (if truthy (m_p1_banned m) then games
         else games_loop sa pid ms
                (games @ [mk_game sa m (m_diff1 m) (escape_opt (m_p0_name m)) (m_profile_id0 m)
                            (m_p0_banned m) ''Lost'']))
      else games_loop sa pid ms games)"

definition player_games_js :: "bool \<Rightarrow> db \<Rightarrow> int \<Rightarrow> game list" where
  "player_games_js sa d pid = games_loop sa pid (player_games_query d pid) []"

text \<open>
  The value of the loop's variable \<open>banned\<close> on a row: the banned flag of the slot the
  viewed player occupies (false on a row of neither slot, which the loop skips).
\<close>

definition viewed_banned :: "int \<Rightarrow> match_row \<Rightarrow> bool" where
  "viewed_banned pid m =
     (if m_profile_id0 m = pid then truthy (m_p0_banned m)
      else if m_profile_id1 m = pid then truthy (m_p1_banned m)
      else False)"

section \<open>Activity timeline\<close>

text \<open>SQL \<^verbatim>\<open>date(end_time)\<close>: the calendar day of a timestamp.\<close>

definition sql_date :: "int \<Rightarrow> int" where
  "sql_date t = t div 86400"

text \<open>
  \<^verbatim>\<open>date(y, m, d).toordinal()\<close> of Python's \<^verbatim>\<open>datetime\<close>, used to write calendar dates
  down.
\<close>

definition is_leap :: "int \<Rightarrow> bool" where
  "is_leap y = (y mod 4 = 0 \<and> (y mod 100 \<noteq> 0 \<or> y mod 400 = 0))"

definition days_before_year :: "int \<Rightarrow> int" where
  "days_before_year year = (let y = year - 1 in y * 365 + y div 4 - y div 100 + y div 400)"

definition days_before_month :: "int \<Rightarrow> nat \<Rightarrow> int" where
  "days_before_month year month =
     [0, 0, 31, 59, 90, 120, 151, 181, 212, 243, 273, 304, 334] ! month
       + (if 2 < month \<and> is_leap year then 1 else 0)"

definition ymd2ord :: "int \<Rightarrow> nat \<Rightarrow> int \<Rightarrow> int" where
  "ymd2ord year month day = days_before_year year + days_before_month year month + day"

record activity_stats =
  act_dates :: "int list option"
  act_data :: "int list option"
  games_per_day :: rat

text \<open>
  \<^verbatim>\<open>
  def _get_activity_stats(db):
      # SELECT date(end_time) as date, COUNT(*) as count FROM outcomes GROUP BY date ORDER BY date ASC
      outcomes_per_day = cur.fetchall()
      if not outcomes_per_day:
          return dict(dates=None, data=None, games_per_day=0)
      start_date = date.fromisoformat(outcomes_per_day[0]['date'])
      end_date = date.today()
      nb_days = (end_date - start_date).days
      all_days = [(start_date + timedelta(n)).strftime('%Y-%m-%d') for n in range(nb_days + 1)]
      db_records = {o['date']: o['count'] for o in outcomes_per_day}
      records = {d: db_records.get(d, 0) for d in all_days}
      return dict(dates=list(records.keys()), data=list(records.values()),
                  games_per_day=sum(records.values()) / len(records))
  \<close>
  \<open>today\<close> is \<^verbatim>\<open>date.today()\<close>. When the earliest recorded day lies after \<open>today\<close>,
  \<open>all_days\<close> and \<open>records\<close> are empty and the division raises.
\<close>

definition outcomes_per_day :: "db \<Rightarrow> (int \<times> int) list" where
  "outcomes_per_day d =
     sort_key fst (group_count (map (\<lambda>oc. sql_date (end_time oc)) (outcomes d)))"

definition get_activity_stats :: "int \<Rightarrow> db \<Rightarrow> py_error + activity_stats" where
  "get_activity_stats today d =
     (case outcomes_per_day d of
        [] \<Rightarrow> Inr \<lparr>act_dates = None, act_data = None, games_per_day = 0\<rparr>
      | (start_date, _) # _ \<Rightarrow>
          let end_date = today;
              nb_days = end_date - start_date;
              all_days = map (\<lambda>n. start_date + n) (py_range (nb_days + 1));
              db_records = dict_of (outcomes_per_day d);
              records = dict_of (map (\<lambda>dy. (dy, dict_get db_records dy 0)) all_days)
          in case py_truediv (sum_list (map snd records)) (int (length records)) of
               Inl e \<Rightarrow> Inl e
             | Inr q \<Rightarrow> Inr \<lparr>act_dates = Some (map fst records),
                              act_data = Some (map snd records),
                              games_per_day = q\<rparr>)"

section \<open>Example ledgers\<close>

text \<open>A player who is rankable but has not finished a game yet.\<close>

definition unplayed_player :: player where
  "unplayed_player = \<lparr>profile_id = 7, profile_name = ''newcomer'', avatar_url = '''',
     wins = 0, losses = 0, prv_rating = 1000, rating = 1000, banned = False\<rparr>"

definition unplayed_ledger :: db where
  "unplayed_ledger = \<lparr>players = [unplayed_player], outcomes = []\<rparr>"

text \<open>Two rankable players with the same rating.\<close>

definition tie_ledger :: db where
  "tie_ledger = \<lparr>players =
     [\<lparr>profile_id = 1, profile_name = ''ann'', avatar_url = '''',
        wins = 3, losses = 1, prv_rating = 990, rating = 1000, banned = False\<rparr>,
      \<lparr>profile_id = 2, profile_name = ''bob'', avatar_url = '''',
        wins = 1, losses = 1, prv_rating = 1010, rating = 1000, banned = False\<rparr>],
     outcomes = []\<rparr>"

text \<open>
  Five players: two with equal ratings, one rated above them, one banned, one with
  rating zero.
\<close>

definition sample_players :: "player list" where
  "sample_players =
     [\<lparr>profile_id = 1, profile_name = ''ann'', avatar_url = ''a.png'',
        wins = 3, losses = 1, prv_rating = 990, rating = 1000, banned = False\<rparr>,
      \<lparr>profile_id = 2, profile_name = ''bob'', avatar_url = ''b.png'',
        wins = 1, losses = 1, prv_rating = 1010, rating = 1000, banned = False\<rparr>,
      \<lparr>profile_id = 3, profile_name = ''cy'', avatar_url = ''c.png'',
        wins = 5, losses = 0, prv_rating = 1150, rating = 1200, banned = False\<rparr>,
      \<lparr>profile_id = 4, profile_name = ''dee'', avatar_url = ''d.png'',
        wins = 9, losses = 0, prv_rating = 1500, rating = 1500, banned = True\<rparr>,
      \<lparr>profile_id = 5, profile_name = ''eve'', avatar_url = ''e.png'',
        wins = 0, losses = 0, prv_rating = 0, rating = 0, banned = False\<rparr>]"

definition sample_ledger :: db where
  "sample_ledger = \<lparr>players = sample_players, outcomes = []\<rparr>"

text \<open>
  Three rows of a match log for player 1, most recent first; on the middle one the
  viewed player carries the banned flag.
\<close>

definition row_a :: match_row where
  "row_a = \<lparr>m_hash = ''h3'', m_end_time = 300, m_duration = ''10:00'',
     m_profile_id0 = 1, m_profile_id1 = 2, m_diff0 = 8, m_diff1 = - 8,
     m_p0_name = Some ''ann'', m_p1_name = Some ''bob'',
     m_p0_banned = Some False, m_p1_banned = Some False, m_map_title = ''Ruins [4v4]''\<rparr>"

definition row_b :: match_row where
  "row_b = \<lparr>m_hash = ''h2'', m_end_time = 200, m_duration = ''12:30'',
     m_profile_id0 = 3, m_profile_id1 = 1, m_diff0 = 5, m_diff1 = - 5,
     m_p0_name = Some ''cy'', m_p1_name = Some ''ann'',
     m_p0_banned = Some False, m_p1_banned = Some True, m_map_title = ''Open Field''\<rparr>"

definition row_c :: match_row where
  "row_c = \<lparr>m_hash = ''h1'', m_end_time = 100, m_duration = ''07:15'',
     m_profile_id0 = 1, m_profile_id1 = 3, m_diff0 = 6, m_diff1 = - 6,
     m_p0_name = Some ''ann'', m_p1_name = Some ''cy'',
     m_p0_banned = Some False, m_p1_banned = Some False, m_map_title = ''Open Field''\<rparr>"

text \<open>An outcome with the given hash, start and end time and participants.\<close>

definition game_outcome :: "string \<Rightarrow> int \<Rightarrow> int \<Rightarrow> int \<Rightarrow> int \<Rightarrow> outcome" where
  "game_outcome h t0 t1 i0 i1 =
     \<lparr>hash = h, start_time = t0, end_time = t1, profile_id0 = i0, profile_id1 = i1,
      rating_0_prv = 1000, rating_0 = 1008, rating_1_prv = 1000, rating_1 = 992,
      selected_faction_0 = ''allies'', selected_faction_1 = ''soviet'',
      map_title = ''Ruins [4v4]'', filename = h @ ''.orarep''\<rparr>"

text \<open>A ledger of two games between players 1 and 2, player 1 being banned.\<close>

definition banned_ledger :: db where
  "banned_ledger =
     \<lparr>players =
        [\<lparr>profile_id = 1, profile_name = ''ann'', avatar_url = '''',
           wins = 1, losses = 1, prv_rating = 1000, rating = 1000, banned = True\<rparr>,
         \<lparr>profile_id = 2, profile_name = ''bob'', avatar_url = '''',
           wins = 1, losses = 1, prv_rating = 1000, rating = 1000, banned = False\<rparr>],
      outcomes = [game_outcome ''h1'' 0 600 1 2, game_outcome ''h2'' 1000 1500 2 1]\<rparr>"

text \<open>
  Three players and three games between players 1 and 2; player 3 has a record but no
  game. Both slots select \<open>allies\<close> in the third game.
\<close>

definition faction_ledger :: db where
  "faction_ledger =
     \<lparr>players =
        [\<lparr>profile_id = 1, profile_name = ''ann'', avatar_url = '''',
           wins = 2, losses = 1, prv_rating = 1000, rating = 1008, banned = False\<rparr>,
         \<lparr>profile_id = 2, profile_name = ''bob'', avatar_url = '''',
           wins = 1, losses = 2, prv_rating = 1000, rating = 992, banned = False\<rparr>,
         \<lparr>profile_id = 3, profile_name = ''cy'', avatar_url = '''',
           wins = 0, losses = 0, prv_rating = 1000, rating = 1000, banned = False\<rparr>],
      outcomes =
        [game_outcome ''h1'' 0 600 1 2,
         (game_outcome ''h2'' 1000 1500 2 1)
           \<lparr>selected_faction_0 := ''soviet'', selected_faction_1 := ''allies'',
             map_title := ''Open Field''\<rparr>,
         (game_outcome ''h3'' 2000 2700 1 2)\<lparr>selected_faction_1 := ''allies''\<rparr>]\<rparr>"

text \<open>
  A ledger with one game that ended on 2024-01-01 and one that ended on 2024-01-04.
\<close>

definition timeline_ledger :: db where
  "timeline_ledger =
     \<lparr>players = players faction_ledger,
      outcomes =
        [game_outcome ''h1'' (ymd2ord 2024 1 1 * 86400 + 72000) (ymd2ord 2024 1 1 * 86400 + 72900) 1 2,
         game_outcome ''h2'' (ymd2ord 2024 1 4 * 86400 + 3600) (ymd2ord 2024 1 4 * 86400 + 4500) 2 1]\<rparr>"

section \<open>Properties of the resampler\<close>










text \<open>
  Claim C1, as the code has it. For the two-point input \<open>[0, 100]\<close> and \<open>m = 5\<close> the
  query positions \<open>i * n / m\<close> are \<open>0, 2/5, 4/5, 6/5, 8/5\<close>; the sample points are
  \<open>0\<close> and \<open>1\<close>, so the last two queries lie beyond the last sample and are clamped
  to its value. The output is \<open>[0, 40, 80, 100, 100]\<close>.
\<close>

theorem scaled_two_point:
  "scaled [0, 100] 5 = Inr [0, 40, 80, 100, 100] \<and>
   np_interp [0, 2 / 5, 4 / 5, 6 / 5, 8 / 5] [0, 1] [0, 100] = Inr [0, 40, 80, 100, 100]"
  by (simp add: scaled_def np_interp_def interp_at_def py_round_def upt_rec)

text \<open>Claim C1 as stated: the output is not \<open>[0, 25, 50, 75, 100]\<close>.\<close>

theorem scaled_two_point_counterexample:
  "scaled [0, 100] 5 \<noteq> Inr [0, 25, 50, 75, 100]"
  by (simp add: scaled_def np_interp_def interp_at_def py_round_def upt_rec)

section \<open>Properties of map-title stripping\<close>

lemma tag_match_SomeD:
  assumes "tag_match s = Some r"
  shows "\<exists>ws b. s = ws @ CHR ''['' # b @ CHR '']'' # r"
proof -
  from assms obtain t where t: "dropWhile is_space s = CHR ''['' # t"
    by (auto simp: tag_match_def split: list.splits if_splits)
  with assms obtain e where e: "dropWhile (\<lambda>c. c \<noteq> CHR '']'') t = e # r"
    by (auto simp: tag_match_def split: list.splits)
  from hd_dropWhile [of "\<lambda>c. c \<noteq> CHR '']''" t] e have "e = CHR '']''" by simp
  with e have "t = takeWhile (\<lambda>c. c \<noteq> CHR '']'') t @ CHR '']'' # r"
    using takeWhile_dropWhile_id [of "\<lambda>c. c \<noteq> CHR '']''" t] by simp
  moreover have "s = takeWhile is_space s @ CHR ''['' # t"
    using takeWhile_dropWhile_id [of is_space s] t by simp
  ultimately show ?thesis by metis
qed

lemma tag_match_bracket_None:
  "tag_match (CHR ''['' # cs) = None \<Longrightarrow> CHR '']'' \<notin> set cs"
  by (auto simp: tag_match_def is_space_def split: list.splits)

lemma set_tag_sub: "set (tag_sub s) \<subseteq> set s"
proof (induction s rule: tag_sub.induct)
  case 1
  show ?case by simp
next
  case (2 c cs)
  show ?case
  proof (cases "tag_match (c # cs)")
    case None
    with 2 show ?thesis by auto
  next
    case (Some r)
    from tag_match_SomeD [OF Some] obtain ws b
      where "c # cs = ws @ CHR ''['' # b @ CHR '']'' # r" by blast
    then have "set (c # cs) = set (ws @ CHR ''['' # b @ CHR '']'' # r)" by (rule arg_cong)
    then have "set r \<subseteq> set (c # cs)" by auto
    with 2 Some show ?thesis by auto
  qed
qed

lemma tagged_Cons:
  "tagged (c # t) \<longleftrightarrow> (c = CHR ''['' \<and> CHR '']'' \<in> set t) \<or> tagged t"
proof
  assume "tagged (c # t)"
  then obtain a b e where eq: "c # t = a @ CHR ''['' # b @ CHR '']'' # e"
    by (auto simp: tagged_def)
  show "(c = CHR ''['' \<and> CHR '']'' \<in> set t) \<or> tagged t"
  proof (cases a)
    case Nil
    with eq show ?thesis by auto
  next
    case (Cons x a')
    with eq have "t = a' @ CHR ''['' # b @ CHR '']'' # e" by simp
    then show ?thesis by (auto simp: tagged_def)
  qed
next
  assume "(c = CHR ''['' \<and> CHR '']'' \<in> set t) \<or> tagged t"
  then show "tagged (c # t)"
  proof
    assume h: "c = CHR ''['' \<and> CHR '']'' \<in> set t"
    then obtain b e where "t = b @ CHR '']'' # e" by (meson split_list)
    with h have "c # t = [] @ CHR ''['' # b @ CHR '']'' # e" by simp
    then show ?thesis unfolding tagged_def by blast
  next
    assume "tagged t"
    then obtain a b e where "t = a @ CHR ''['' # b @ CHR '']'' # e"
      by (auto simp: tagged_def)
    then have "c # t = (c # a) @ CHR ''['' # b @ CHR '']'' # e" by simp
    then show ?thesis unfolding tagged_def by blast
  qed
qed

lemma not_tagged_tag_sub: "\<not> tagged (tag_sub s)"
proof (induction s rule: tag_sub.induct)
  case 1
  show ?case by (simp add: tagged_def)
next
  case (2 c cs)
  show ?case
  proof (cases "tag_match (c # cs)")
    case (Some r)
    with 2 show ?thesis by simp
  next
    case None
    with 2 have ih: "\<not> tagged (tag_sub cs)" by simp
    have "\<not> (c = CHR ''['' \<and> CHR '']'' \<in> set (tag_sub cs))"
      using tag_match_bracket_None None set_tag_sub [of cs] by auto
    with ih None show ?thesis by (simp add: tagged_Cons)
  qed
qed

lemma tag_sub_untagged: "\<not> tagged s \<Longrightarrow> tag_sub s = s"
proof (induction s)
  case Nil
  show ?case by simp
next
  case (Cons c cs)
  have "tag_match (c # cs) = None"
  proof (cases "tag_match (c # cs)")
    case (Some r)
    from tag_match_SomeD [OF Some] Cons.prems show ?thesis by (auto simp: tagged_def)
  qed simp
  moreover from Cons.prems have "\<not> tagged cs" by (simp add: tagged_Cons)
  ultimately show ?case using Cons.IH by simp
qed

lemma rev_dropWhile_split:
  "xs = rev (dropWhile P (rev xs)) @ rev (takeWhile P (rev xs))"
  by (metis rev_append rev_rev_ident takeWhile_dropWhile_id)

lemma py_strip_infix: "\<exists>pre post. s = pre @ py_strip s @ post"
proof -
  let ?u = "dropWhile is_space s"
  have "?u = py_strip s @ rev (takeWhile is_space (rev ?u))"
    unfolding py_strip_def by (rule rev_dropWhile_split)
  moreover have "s = takeWhile is_space s @ ?u" by simp
  ultimately show ?thesis by metis
qed

lemma tagged_infix: "tagged t \<Longrightarrow> tagged (pre @ t @ post)"
proof -
  assume "tagged t"
  then obtain a b e where "t = a @ CHR ''['' # b @ CHR '']'' # e" by (auto simp: tagged_def)
  then have "pre @ t @ post = (pre @ a) @ CHR ''['' # b @ CHR '']'' # (e @ post)" by simp
  then show ?thesis unfolding tagged_def by blast
qed

lemma not_tagged_py_strip: "\<not> tagged s \<Longrightarrow> \<not> tagged (py_strip s)"
  using py_strip_infix [of s] tagged_infix by metis

lemma py_strip_ends:
  "py_strip s = [] \<or> (\<not> is_space (hd (py_strip s)) \<and> \<not> is_space (last (py_strip s)))"
proof (cases "py_strip s = []")
  case False
  let ?u = "dropWhile is_space s"
  let ?w = "dropWhile is_space (rev ?u)"
  have v: "py_strip s = rev ?w" by (simp add: py_strip_def)
  with False have wne: "?w \<noteq> []" by simp
  then have "\<not> is_space (hd ?w)" by (rule hd_dropWhile)
  then have l: "\<not> is_space (last (py_strip s))" using wne by (simp add: v last_rev)
  have une: "?u \<noteq> []"
    using wne by (metis dropWhile.simps(1) rev.simps(1))
  then have hu: "\<not> is_space (hd ?u)" by (rule hd_dropWhile)
  have "?u = py_strip s @ rev (takeWhile is_space (rev ?u))"
    unfolding py_strip_def by (rule rev_dropWhile_split)
  then have "hd ?u = hd (py_strip s)" using False by (metis hd_append2)
  with hu l show ?thesis by simp
qed simp

lemma py_strip_idem: "py_strip (py_strip s) = py_strip s"
proof (cases "py_strip s = []")
  case True
  show ?thesis unfolding True by (simp add: py_strip_def)
next
  case False
  with py_strip_ends [of s] have h: "\<not> is_space (hd (py_strip s))" and l: "\<not> is_space (last (py_strip s))"
    by auto
  have 1: "dropWhile is_space (py_strip s) = py_strip s"
    using h False by (simp add: dropWhile_eq_self_iff)
  have "hd (rev (py_strip s)) = last (py_strip s)" using False by (simp add: hd_rev)
  then have 2: "dropWhile is_space (rev (py_strip s)) = rev (py_strip s)"
    using l False by (simp add: dropWhile_eq_self_iff)
  show ?thesis
    unfolding py_strip_def [of "py_strip s"] 1 2 by simp
qed

text \<open>
  Claim C8. Stripping a map title is idempotent; the stripped title contains no
  bracketed tag at all, wherever the tags stood in the title (not only at its end); and
  it neither starts nor ends with white space. Two titles as examples, the second with
  a tag in the middle.
\<close>

theorem stripped_map_name_idempotent:
  "stripped_map_name (stripped_map_name s) = stripped_map_name s \<and>
   \<not> (\<exists>a b c. stripped_map_name s = a @ CHR ''['' # b @ CHR '']'' # c) \<and>
   (stripped_map_name s = [] \<or>
      (\<not> is_space (hd (stripped_map_name s)) \<and> \<not> is_space (last (stripped_map_name s)))) \<and>
   stripped_map_name ''Ruins [4v4]'' = ''Ruins'' \<and>
   stripped_map_name ''Twin [beta] Peaks  [1v1] '' = ''Twin Peaks''"
proof -
  have nt: "\<not> tagged (stripped_map_name s)"
    unfolding stripped_map_name_def by (rule not_tagged_py_strip) (rule not_tagged_tag_sub)
  then have "tag_sub (stripped_map_name s) = stripped_map_name s" by (rule tag_sub_untagged)
  then have "stripped_map_name (stripped_map_name s) = py_strip (stripped_map_name s)"
    by (simp add: stripped_map_name_def [of "stripped_map_name s"])
  also have "\<dots> = stripped_map_name s"
    by (simp add: stripped_map_name_def py_strip_idem)
  finally have idem: "stripped_map_name (stripped_map_name s) = stripped_map_name s" .
  have e1: "stripped_map_name ''Ruins [4v4]'' = ''Ruins''" by code_simp
  have e2: "stripped_map_name ''Twin [beta] Peaks  [1v1] '' = ''Twin Peaks''" by code_simp
  from nt have "\<not> (\<exists>a b c. stripped_map_name s = a @ CHR ''['' # b @ CHR '']'' # c)"
    by (simp add: tagged_def)
  with idem py_strip_ends [of "tag_sub s"] e1 e2 show ?thesis
    by (simp add: stripped_map_name_def)
qed

section \<open>Properties of the leaderboard\<close>

lemma leaderboard_rows_Inl:
  assumes "p \<in> set ps" and "wins p + losses p = 0"
  shows "leaderboard_rows i ps = Inl ZeroDivisionError"
  using assms
proof (induction ps arbitrary: i)
  case Nil
  then show ?case by simp
next
  case (Cons q ps)
  show ?case
  proof (cases "wins q + losses q = 0")
    case True
    then show ?thesis by (simp add: py_truediv_def)
  next
    case False
    with Cons.prems have "p \<in> set ps" by auto
    from Cons.IH [OF this Cons.prems(2)] False show ?thesis
      by (simp add: py_truediv_def)
  qed
qed

lemma leaderboard_rows_Inr:
  assumes "\<forall>p \<in> set ps. wins p + losses p \<noteq> 0"
  shows "\<exists>rows. leaderboard_rows i ps = Inr rows \<and> length rows = length ps \<and>
           (\<forall>k < length ps. row_id (rows ! k) = i + k \<and>
              rating_value (rows ! k) = rating (ps ! k) \<and>
              lb_url (rows ! k) = PlayerUrl (profile_id (ps ! k)))"
  using assms
proof (induction ps arbitrary: i)
  case Nil
  then show ?case by simp
next
  case (Cons q ps)
  from Cons.prems have "\<forall>p \<in> set ps. wins p + losses p \<noteq> 0" by simp
  from Cons.IH [OF this, of "Suc i"] obtain rows where
    r: "leaderboard_rows (Suc i) ps = Inr rows" and l: "length rows = length ps" and
    k: "\<forall>k < length ps. row_id (rows ! k) = Suc i + k \<and>
              rating_value (rows ! k) = rating (ps ! k) \<and>
              lb_url (rows ! k) = PlayerUrl (profile_id (ps ! k))"
    by blast
  from Cons.prems have nz: "wins q + losses q \<noteq> 0" by simp
  let ?row = "\<lparr>row_id = i, lb_name = escape (profile_name q), lb_url = PlayerUrl (profile_id q),
     lb_avatar_url = avatar_url q, rating_value = rating q, rating_diff = rating q - prv_rating q,
     played = wins q + losses q, lb_wins = wins q, lb_losses = losses q,
     winrate = rat_of_int (wins q) / rat_of_int (wins q + losses q) * 100\<rparr>"
  have e: "leaderboard_rows i (q # ps) = Inr (?row # rows)"
    using nz r by (simp add: py_truediv_def)
  have "\<forall>k < length (q # ps). row_id ((?row # rows) ! k) = i + k \<and>
              rating_value ((?row # rows) ! k) = rating ((q # ps) ! k) \<and>
              lb_url ((?row # rows) ! k) = PlayerUrl (profile_id ((q # ps) ! k))"
  proof (intro allI impI)
    fix n assume "n < length (q # ps)"
    then show "row_id ((?row # rows) ! n) = i + n \<and>
              rating_value ((?row # rows) ! n) = rating ((q # ps) ! n) \<and>
              lb_url ((?row # rows) ! n) = PlayerUrl (profile_id ((q # ps) ! n))"
      using k by (cases n) auto
  qed
  with e l show ?case by simp
qed

lemma set_rankable_players:
  "set (rankable_players d) = {p \<in> set (players d). 0 < rating p \<and> \<not> banned p}"
  by (auto simp: rankable_players_def)

lemma rankable_players_descending:
  assumes "i \<le> j" and "j < length (rankable_players d)"
  shows "rating (rankable_players d ! j) \<le> rating (rankable_players d ! i)"
proof -
  have "sorted (map (\<lambda>p. - rating p) (rankable_players d))"
    by (simp add: rankable_players_def)
  from sorted_nth_mono [OF this, of i j] assms show ?thesis by simp
qed

text \<open>
  Claim C7, as the code has it. When every rankable player has played at least one
  game, the leaderboard returns rows whose rank positions are \<open>1, 2, ...\<close> in order;
  a row with a strictly higher rating has a strictly smaller rank; and every row is
  that of a player of the table who is not banned and whose rating is positive, so a
  banned player or one with a rating of zero or less never appears. Players with equal
  ratings get different, consecutive ranks.
\<close>

theorem leaderboard_order:
  assumes "\<forall>p \<in> set (players d). 0 < rating p \<and> \<not> banned p \<longrightarrow> wins p + losses p \<noteq> 0"
  shows "\<exists>rows. leaderboard_js d = Inr rows \<and>
     map row_id rows = [1..<Suc (length rows)] \<and>
     (\<forall>r \<in> set rows. \<forall>r' \<in> set rows.
        rating_value r' < rating_value r \<longrightarrow> row_id r < row_id r') \<and>
     (\<forall>r \<in> set rows. \<exists>p \<in> set (players d).
        lb_url r = PlayerUrl (profile_id p) \<and> rating_value r = rating p \<and>
        0 < rating p \<and> \<not> banned p)"
proof -
  let ?ps = "rankable_players d"
  from assms have "\<forall>p \<in> set ?ps. wins p + losses p \<noteq> 0"
    by (simp add: set_rankable_players)
  from leaderboard_rows_Inr [OF this, of 1] obtain rows where
    r: "leaderboard_js d = Inr rows" and l: "length rows = length ?ps" and
    k: "\<forall>k < length ?ps. row_id (rows ! k) = 1 + k \<and>
              rating_value (rows ! k) = rating (?ps ! k) \<and>
              lb_url (rows ! k) = PlayerUrl (profile_id (?ps ! k))"
    unfolding leaderboard_js_def by blast
  have ids: "map row_id rows = [1..<Suc (length rows)]"
  proof (rule nth_equalityI)
    show "length (map row_id rows) = length [1..<Suc (length rows)]"
      by (simp del: upt_Suc)
  next
    fix i assume "i < length (map row_id rows)"
    then show "map row_id rows ! i = [1..<Suc (length rows)] ! i"
      using k l by (simp del: upt_Suc add: nth_upt)
  qed
  have ord: "\<forall>r \<in> set rows. \<forall>r' \<in> set rows.
        rating_value r' < rating_value r \<longrightarrow> row_id r < row_id r'"
  proof (intro ballI impI)
    fix r r' assume "r \<in> set rows" "r' \<in> set rows" and lt: "rating_value r' < rating_value r"
    then obtain i j where i: "i < length rows" "r = rows ! i" and j: "j < length rows" "r' = rows ! j"
      by (auto simp: in_set_conv_nth)
    have "\<not> j \<le> i"
    proof
      assume "j \<le> i"
      from rankable_players_descending [OF this] i l have "rating (?ps ! i) \<le> rating (?ps ! j)" by simp
      with lt i j k l show False by simp
    qed
    with i j k l show "row_id r < row_id r'" by simp
  qed
  have src: "\<forall>r \<in> set rows. \<exists>p \<in> set (players d).
        lb_url r = PlayerUrl (profile_id p) \<and> rating_value r = rating p \<and>
        0 < rating p \<and> \<not> banned p"
  proof
    fix r assume "r \<in> set rows"
    then obtain i where i: "i < length rows" "r = rows ! i" by (auto simp: in_set_conv_nth)
    with l have "?ps ! i \<in> set ?ps" by simp
    then have "?ps ! i \<in> set (players d) \<and> 0 < rating (?ps ! i) \<and> \<not> banned (?ps ! i)"
      by (simp add: set_rankable_players)
    with i k l show "\<exists>p \<in> set (players d).
        lb_url r = PlayerUrl (profile_id p) \<and> rating_value r = rating p \<and>
        0 < rating p \<and> \<not> banned p" by auto
  qed
  from r ids ord src show ?thesis by blast
qed

theorem leaderboard_order_witness:
  "list_all (\<lambda>p. 0 < rating p \<and> \<not> banned p \<longrightarrow> wins p + losses p \<noteq> 0) (players sample_ledger) \<and>
   (\<exists>rows. leaderboard_js sample_ledger = Inr rows \<and>
      map row_id rows = [1, 2, 3] \<and>
      map rating_value rows = [1200, 1000, 1000] \<and>
      map lb_url rows = [PlayerUrl 3, PlayerUrl 1, PlayerUrl 2])"
proof -
  have h: "\<forall>p \<in> set (players sample_ledger).
             0 < rating p \<and> \<not> banned p \<longrightarrow> wins p + losses p \<noteq> 0"
    by (simp add: sample_ledger_def sample_players_def)
  have e: "case leaderboard_js sample_ledger of
             Inl e \<Rightarrow> False
           | Inr rows \<Rightarrow> map row_id rows = [1, 2, 3] \<and>
               map rating_value rows = [1200, 1000, 1000] \<and>
               map lb_url rows = [PlayerUrl 3, PlayerUrl 1, PlayerUrl 2]"
    by (simp add: leaderboard_js_def rankable_players_def sample_ledger_def sample_players_def
        py_truediv_def)
  from leaderboard_order [OF h] obtain rows where "leaderboard_js sample_ledger = Inr rows"
    by blast
  with e h show ?thesis by (simp add: list_all_iff)
qed

text \<open>
  Claim C7 as stated asks for \<open>rank p \<le> rank q\<close> whenever \<open>rating p \<ge> rating q\<close>.
  With two players of equal rating the second row has a rating at least that of the
  first, and yet its rank is larger.
\<close>

theorem leaderboard_tie_counterexample:
  "leaderboard_js tie_ledger =
     Inr [\<lparr>row_id = 1, lb_name = ''ann'', lb_url = PlayerUrl 1, lb_avatar_url = '''',
            rating_value = 1000, rating_diff = 10, played = 4, lb_wins = 3, lb_losses = 1,
            winrate = 75\<rparr>,
          \<lparr>row_id = 2, lb_name = ''bob'', lb_url = PlayerUrl 2, lb_avatar_url = '''',
            rating_value = 1000, rating_diff = - 10, played = 2, lb_wins = 1, lb_losses = 1,
            winrate = 50\<rparr>] \<and>
   rating_value \<lparr>row_id = 1, lb_name = ''ann'', lb_url = PlayerUrl 1, lb_avatar_url = '''',
            rating_value = 1000, rating_diff = 10, played = 4, lb_wins = 3, lb_losses = 1,
            winrate = 75\<rparr>
     \<le> rating_value \<lparr>row_id = 2, lb_name = ''bob'', lb_url = PlayerUrl 2, lb_avatar_url = '''',
            rating_value = 1000, rating_diff = - 10, played = 2, lb_wins = 1, lb_losses = 1,
            winrate = 50\<rparr> \<and>
   \<not> row_id \<lparr>row_id = 2, lb_name = ''bob'', lb_url = PlayerUrl 2, lb_avatar_url = '''',
            rating_value = 1000, rating_diff = - 10, played = 2, lb_wins = 1, lb_losses = 1,
            winrate = 50\<rparr>
     \<le> row_id \<lparr>row_id = 1, lb_name = ''ann'', lb_url = PlayerUrl 1, lb_avatar_url = '''',
            rating_value = 1000, rating_diff = 10, played = 4, lb_wins = 3, lb_losses = 1,
            winrate = 75\<rparr>"
  by (simp add: leaderboard_js_def rankable_players_def tie_ledger_def py_truediv_def
      escape_def escape_char_def)

text \<open>
  Claim C4. The leaderboard has no guard for a player without games: as soon as one
  rankable player (rating above zero, not banned) has \<open>wins + losses = 0\<close>, the
  division in \<open>winrate\<close> raises and the leaderboard returns no rows at all.
\<close>

theorem leaderboard_unplayed_fails:
  assumes "p \<in> set (players d)" and "0 < rating p" and "\<not> banned p"
    and "wins p + losses p = 0"
  shows "leaderboard_js d = Inl ZeroDivisionError"
proof -
  from assms have "p \<in> set (rankable_players d)" by (simp add: set_rankable_players)
  then show ?thesis unfolding leaderboard_js_def using assms(4) by (rule leaderboard_rows_Inl)
qed

theorem leaderboard_unplayed_fails_witness:
  "unplayed_player \<in> set (players unplayed_ledger) \<and> 0 < rating unplayed_player \<and>
   \<not> banned unplayed_player \<and> wins unplayed_player + losses unplayed_player = 0 \<and>
   leaderboard_js unplayed_ledger = Inl ZeroDivisionError"
proof -
  have 1: "unplayed_player \<in> set (players unplayed_ledger)" by (simp add: unplayed_ledger_def)
  have 2: "0 < rating unplayed_player" by (simp add: unplayed_player_def)
  have 3: "\<not> banned unplayed_player" by (simp add: unplayed_player_def)
  have 4: "wins unplayed_player + losses unplayed_player = 0" by (simp add: unplayed_player_def)
  from leaderboard_unplayed_fails [OF 1 2 3 4] 1 2 3 4 show ?thesis by simp
qed

section \<open>Properties of the match log\<close>

lemma games_loop_truncate:
  "viewed_banned pid r \<Longrightarrow>
   games_loop sa pid (pre @ r # post) games = games_loop sa pid pre games"
proof (induction pre arbitrary: games)
  case Nil
  then show ?case by (simp add: viewed_banned_def split: if_splits)
next
  case (Cons m pre)
  then show ?case by simp
qed

lemma games_loop_all_banned:
  "\<forall>m \<in> set ms. m_profile_id0 m = pid \<or> m_profile_id1 m = pid \<longrightarrow> viewed_banned pid m \<Longrightarrow>
   games_loop sa pid ms games = games"
proof (induction ms)
  case Nil
  show ?case by simp
next
  case (Cons m ms)
  then show ?case by (auto simp: viewed_banned_def)
qed

lemma query_rows_banned:
  assumes "find_player d pid = Some p" and "banned p" and "m \<in> set (player_games_query d pid)"
  shows "viewed_banned pid m"
proof -
  from assms(3) obtain oc where m: "m = joined_row d oc"
    and oc: "pid = profile_id0 oc \<or> pid = profile_id1 oc"
    by (auto simp: player_games_query_def)
  from oc assms(1,2) show ?thesis
    by (auto simp: m joined_row_def viewed_banned_def truthy_def)
qed

text \<open>
  Claim C5. The walk over the rows of a player's match log, most recent first, ends at
  the first row on which the viewed player is marked banned: whatever follows that row,
  the result is the result of the rows before it. So when the viewed player is marked
  banned on every row of theirs, the log is empty; in particular the log of a player
  whose record is banned is empty, however many games the ledger holds.
\<close>

theorem player_games_ban_truncation:
  "(viewed_banned pid r \<longrightarrow>
      games_loop sa pid (pre @ r # post) [] = games_loop sa pid pre []) \<and>
   ((\<forall>m \<in> set ms. m_profile_id0 m = pid \<or> m_profile_id1 m = pid \<longrightarrow> viewed_banned pid m) \<longrightarrow>
      games_loop sa pid ms [] = []) \<and>
   ((\<exists>p. find_player d pid = Some p \<and> banned p) \<longrightarrow> player_games_js sa d pid = [])"
proof (intro conjI impI)
  assume "viewed_banned pid r"
  then show "games_loop sa pid (pre @ r # post) [] = games_loop sa pid pre []"
    by (rule games_loop_truncate)
next
  assume "\<forall>m \<in> set ms. m_profile_id0 m = pid \<or> m_profile_id1 m = pid \<longrightarrow> viewed_banned pid m"
  then show "games_loop sa pid ms [] = []" by (rule games_loop_all_banned)
next
  assume "\<exists>p. find_player d pid = Some p \<and> banned p"
  then obtain p where p: "find_player d pid = Some p" "banned p" by blast
  have "\<forall>m \<in> set (player_games_query d pid).
          m_profile_id0 m = pid \<or> m_profile_id1 m = pid \<longrightarrow> viewed_banned pid m"
    using query_rows_banned [OF p] by blast
  then show "player_games_js sa d pid = []"
    unfolding player_games_js_def by (rule games_loop_all_banned)
qed

theorem player_games_ban_truncation_witness:
  "viewed_banned 1 row_b \<and>
   games_loop True 1 ([row_a] @ row_b # [row_c]) [] = games_loop True 1 [row_a] [] \<and>
   map g_date (games_loop True 1 [row_a] []) = [300] \<and>
   map g_date (games_loop True 1 [row_a, row_c] []) = [300, 100] \<and>
   list_all (viewed_banned 1) [row_b, row_b] \<and>
   games_loop True 1 [row_b, row_b] [] = [] \<and>
   map_option banned (find_player banned_ledger 1) = Some True \<and>
   length (player_games_query banned_ledger 1) = 2 \<and>
   player_games_js True banned_ledger 1 = []"
proof -
  have b: "viewed_banned 1 row_b" by (simp add: viewed_banned_def row_b_def truthy_def)
  have f: "\<exists>p. find_player banned_ledger 1 = Some p \<and> banned p"
    by (simp add: find_player_def banned_ledger_def)
  have a: "map g_date (games_loop True 1 [row_a] []) = [300]"
    by (simp add: row_a_def truthy_def mk_game_def)
  have c: "map g_date (games_loop True 1 [row_a, row_c] []) = [300, 100]"
    by (simp add: row_a_def row_c_def truthy_def mk_game_def)
  have n: "length (player_games_query banned_ledger 1) = 2"
    by (simp add: player_games_query_def banned_ledger_def game_outcome_def)
  have fb: "map_option banned (find_player banned_ledger 1) = Some True"
    by (simp add: find_player_def banned_ledger_def)
  from player_games_ban_truncation [of 1 row_b True "[row_a]" "[row_c]" "[row_b, row_b]" banned_ledger]
    b f a c n fb show ?thesis by simp
qed

section \<open>Properties of dicts and grouped counts\<close>

lemma update_fresh: "k \<notin> fst ` set d \<Longrightarrow> AList.update k v d = d @ [(k, v)]"
  by (induction d) auto

lemma dict_update_distinct:
  "distinct (map fst (d @ items)) \<Longrightarrow> dict_update d items = d @ items"
proof (induction items arbitrary: d)
  case Nil
  show ?case by (simp add: dict_update_def)
next
  case (Cons kv items)
  obtain k v where kv: "kv = (k, v)" by (cases kv)
  from Cons.prems have fresh: "k \<notin> fst ` set d" by (auto simp: kv)
  from Cons.prems have "distinct (map fst ((d @ [(k, v)]) @ items))" by (simp add: kv)
  from Cons.IH [OF this] have "dict_update (d @ [(k, v)]) items = d @ (k, v) # items" by simp
  then show ?case
    using fresh by (simp add: dict_update_def kv update_fresh)
qed

lemma dict_of_distinct: "distinct (map fst items) \<Longrightarrow> dict_of items = items"
  using dict_update_distinct [of "[]" items] by (simp add: dict_of_def)

lemma map_of_dict_update:
  "map_of (dict_update d items) k =
     (case map_of (rev items) k of Some v \<Rightarrow> Some v | None \<Rightarrow> map_of d k)"
proof (induction items arbitrary: d)
  case Nil
  show ?case by (simp add: dict_update_def)
next
  case (Cons kv items)
  obtain a b where kv: "kv = (a, b)" by (cases kv)
  have "dict_update d (kv # items) = dict_update (AList.update a b d) items"
    by (simp add: dict_update_def kv)
  then show ?case
    using Cons.IH [of "AList.update a b d"]
    by (auto simp: kv update_conv' map_add_def split: option.splits)
qed

lemma map_of_rev_distinct:
  "distinct (map fst xs) \<Longrightarrow> map_of (rev xs) k = map_of xs k"
proof (induction xs)
  case Nil
  show ?case by simp
next
  case (Cons kv xs)
  then show ?case
    by (cases kv) (auto simp: map_add_def split: option.splits dest: map_of_SomeD intro: rev_image_eqI)
qed

lemma distinct_group_count: "distinct (map fst (group_count ks))"
  by (simp add: group_count_def comp_def)

lemma map_of_group_count:
  "map_of (group_count ks) k = (if k \<in> set ks then Some (int (count_list ks k)) else None)"
proof -
  have "map_of (map (\<lambda>k. (k, int (count_list ks k))) xs) k =
          (if k \<in> set xs then Some (int (count_list ks k)) else None)" for xs
    by (induction xs) auto
  from this [of "sorted_list_of_set (set ks)"] show ?thesis by (simp add: group_count_def)
qed

lemma dict_of_group_count: "dict_of (group_count ks) = group_count ks"
  by (rule dict_of_distinct) (rule distinct_group_count)

lemma count_list_map_filter:
  "count_list (map f (filter P xs)) y = length (filter (\<lambda>x. P x \<and> f x = y) xs)"
  by (induction xs) auto

section \<open>Properties of the histograms\<close>

lemma hist_wins_eq:
  "hist_wins d pid = group_count (map map_title (filter (\<lambda>oc. profile_id0 oc = pid) (outcomes d)))"
  by (simp add: hist_wins_def dict_of_group_count)

lemma hist_losses_eq:
  "hist_losses d pid =
     map (\<lambda>(k, c). (k, - c))
       (group_count (map map_title (filter (\<lambda>oc. profile_id1 oc = pid) (outcomes d))))"
proof -
  have "map fst (map (\<lambda>(k, c). (k, - c)) xs) = map fst xs" for xs :: "(string \<times> int) list"
    by (simp add: comp_def case_prod_unfold)
  then have "distinct (map fst (map (\<lambda>(k, c). (k, - c)) (group_count ks)))" for ks :: "string list"
    by (simp only: distinct_group_count)
  then show ?thesis
    unfolding hist_losses_def by (intro dict_of_distinct)
qed

lemma hist_wins_get:
  "dict_get (hist_wins d pid) m 0 =
     int (length (filter (\<lambda>oc. profile_id0 oc = pid \<and> map_title oc = m) (outcomes d)))"
proof -
  let ?xs = "map map_title (filter (\<lambda>oc. profile_id0 oc = pid) (outcomes d))"
  have "dict_get (hist_wins d pid) m 0 = int (count_list ?xs m)"
    by (simp add: dict_get_def hist_wins_eq map_of_group_count)
  then show ?thesis by (simp add: count_list_map_filter)
qed

lemma hist_losses_get:
  "dict_get (hist_losses d pid) m 0 =
     - int (length (filter (\<lambda>oc. profile_id1 oc = pid \<and> map_title oc = m) (outcomes d)))"
proof -
  let ?xs = "map map_title (filter (\<lambda>oc. profile_id1 oc = pid) (outcomes d))"
  have "dict_get (hist_losses d pid) m 0 = - int (count_list ?xs m)"
    by (simp add: dict_get_def hist_losses_eq map_of_map map_of_group_count)
  then show ?thesis by (simp add: count_list_map_filter)
qed

lemma keys_group_count: "set (map fst (group_count ks)) = set ks"
  by (simp add: group_count_def comp_def)

lemma map_names_eq:
  "ms_names (get_player_map_stats d pid) =
     sorted_list_of_set
       (map_title ` {oc \<in> set (outcomes d). profile_id0 oc = pid \<or> profile_id1 oc = pid})"
proof -
  have l: "set (map fst (hist_losses d pid)) =
             map_title ` {oc \<in> set (outcomes d). profile_id1 oc = pid}"
    unfolding hist_losses_eq using keys_group_count [of "map map_title (filter (\<lambda>oc. profile_id1 oc = pid) (outcomes d))"]
    by (simp add: comp_def case_prod_unfold)
  have w: "set (map fst (hist_wins d pid)) =
             map_title ` {oc \<in> set (outcomes d). profile_id0 oc = pid}"
    unfolding hist_wins_eq keys_group_count by simp
  have "set (map fst (hist_wins d pid)) \<union> set (map fst (hist_losses d pid)) =
          map_title ` {oc \<in> set (outcomes d). profile_id0 oc = pid \<or> profile_id1 oc = pid}"
    unfolding w l by blast
  then show ?thesis by (simp add: get_player_map_stats_def Let_def)
qed

text \<open>
  Claim C9. In the map histogram of any player, the names are the sorted distinct map
  titles of the player's games; the win entry of a name is the number of the player's
  games on that map in slot 0 and the loss entry is minus the number of those in
  slot 1, hence zero where the map is absent from that side. Every win entry is at
  least zero and every loss entry at most zero.
\<close>

theorem player_map_stats_signs:
  "ms_names (get_player_map_stats d pid) =
     sorted_list_of_set
       (map_title ` {oc \<in> set (outcomes d). profile_id0 oc = pid \<or> profile_id1 oc = pid}) \<and>
   win_data (get_player_map_stats d pid) =
     map (\<lambda>m. int (length (filter (\<lambda>oc. profile_id0 oc = pid \<and> map_title oc = m) (outcomes d))))
       (ms_names (get_player_map_stats d pid)) \<and>
   loss_data (get_player_map_stats d pid) =
     map (\<lambda>m. - int (length (filter (\<lambda>oc. profile_id1 oc = pid \<and> map_title oc = m) (outcomes d))))
       (ms_names (get_player_map_stats d pid)) \<and>
   (\<forall>c \<in> set (win_data (get_player_map_stats d pid)). 0 \<le> c) \<and>
   (\<forall>c \<in> set (loss_data (get_player_map_stats d pid)). c \<le> 0)"
proof -
  let ?S = "get_player_map_stats d pid"
  have w: "win_data ?S =
     map (\<lambda>m. int (length (filter (\<lambda>oc. profile_id0 oc = pid \<and> map_title oc = m) (outcomes d))))
       (ms_names ?S)"
    by (simp add: get_player_map_stats_def Let_def hist_wins_get)
  have l: "loss_data ?S =
     map (\<lambda>m. - int (length (filter (\<lambda>oc. profile_id1 oc = pid \<and> map_title oc = m) (outcomes d))))
       (ms_names ?S)"
    by (simp add: get_player_map_stats_def Let_def hist_losses_get)
  have "\<forall>c \<in> set (win_data ?S). 0 \<le> c" unfolding w by auto
  moreover have "\<forall>c \<in> set (loss_data ?S). c \<le> 0" unfolding l by auto
  ultimately show ?thesis using map_names_eq [of d pid] w l by blast
qed

theorem player_map_stats_signs_witness:
  "get_player_map_stats faction_ledger 1 =
     \<lparr>ms_names = [''Open Field'', ''Ruins [4v4]''], win_data = [0, 2], loss_data = [- 1, 0]\<rparr> \<and>
   list_all (\<lambda>c. 0 \<le> c) (win_data (get_player_map_stats faction_ledger 1)) \<and>
   list_all (\<lambda>c. c \<le> 0) (loss_data (get_player_map_stats faction_ledger 1))"
proof -
  have "get_player_map_stats faction_ledger 1 =
     \<lparr>ms_names = [''Open Field'', ''Ruins [4v4]''], win_data = [0, 2], loss_data = [- 1, 0]\<rparr>"
    by code_simp
  with player_map_stats_signs [of faction_ledger 1] show ?thesis
    by (simp add: list_all_iff)
qed

lemma map_of_global_faction_hist:
  "map_of (global_faction_hist d) f =
     (if f \<in> selected_faction_1 ` set (outcomes d)
      then Some (int (length (filter (\<lambda>oc. selected_faction_1 oc = f) (outcomes d))))
      else if f \<in> selected_faction_0 ` set (outcomes d)
      then Some (int (length (filter (\<lambda>oc. selected_faction_0 oc = f) (outcomes d))))
      else None)"
proof -
  have c: "count_list (map g xs) f = length (filter (\<lambda>oc. g oc = f) xs)"
    for g :: "outcome \<Rightarrow> string" and xs
    using count_list_map_filter [of g "\<lambda>_. True" xs f] by simp
  have r: "map_of (rev (group_count ks)) k = map_of (group_count ks) k" for ks :: "string list" and k
    by (rule map_of_rev_distinct) (rule distinct_group_count)
  show ?thesis
    by (simp add: global_faction_hist_def Let_def dict_of_group_count map_of_dict_update r
        map_of_group_count c)
qed

text \<open>
  Claim C2. The global faction histogram does not add the two slots up. The count it
  reports for a faction is the slot-1 count when the faction was selected in slot 1 at
  all, and the slot-0 count otherwise: \<^verbatim>\<open>hist.update\<close> overwrites the entry of the
  first round. In the example ledger \<open>allies\<close> was selected four times and \<open>soviet\<close>
  twice, and the histogram reports 2 and 1.
\<close>

theorem global_faction_hist_overwrites:
  "map_of (global_faction_hist d) f =
     (if f \<in> selected_faction_1 ` set (outcomes d)
      then Some (int (length (filter (\<lambda>oc. selected_faction_1 oc = f) (outcomes d))))
      else if f \<in> selected_faction_0 ` set (outcomes d)
      then Some (int (length (filter (\<lambda>oc. selected_faction_0 oc = f) (outcomes d))))
      else None) \<and>
   get_global_faction_stats faction_ledger =
     Hist \<lparr>hs_names = [''allies'', ''soviet''], hs_data = [2, 1], hs_total = 3,
           hs_colors = [''#A32828'', ''#28A3A3'']\<rparr> \<and>
   length (filter (\<lambda>oc. selected_faction_0 oc = ''allies'') (outcomes faction_ledger)) +
   length (filter (\<lambda>oc. selected_faction_1 oc = ''allies'') (outcomes faction_ledger)) = 4 \<and>
   length (filter (\<lambda>oc. selected_faction_0 oc = ''soviet'') (outcomes faction_ledger)) +
   length (filter (\<lambda>oc. selected_faction_1 oc = ''soviet'') (outcomes faction_ledger)) = 2"
proof -
  have e: "get_global_faction_stats faction_ledger =
     Hist \<lparr>hs_names = [''allies'', ''soviet''], hs_data = [2, 1], hs_total = 3,
           hs_colors = [''#A32828'', ''#28A3A3'']\<rparr>"
    by code_simp
  have n: "length (filter (\<lambda>oc. selected_faction_0 oc = ''allies'') (outcomes faction_ledger)) +
   length (filter (\<lambda>oc. selected_faction_1 oc = ''allies'') (outcomes faction_ledger)) = 4"
    by (simp add: faction_ledger_def game_outcome_def)
  have n': "length (filter (\<lambda>oc. selected_faction_0 oc = ''soviet'') (outcomes faction_ledger)) +
   length (filter (\<lambda>oc. selected_faction_1 oc = ''soviet'') (outcomes faction_ledger)) = 2"
    by (simp add: faction_ledger_def game_outcome_def)
  from map_of_global_faction_hist [of d f] e n n' show ?thesis by blast
qed

lemma player_faction_hist_empty:
  assumes "\<forall>oc \<in> set (outcomes d). pid \<noteq> profile_id0 oc \<and> pid \<noteq> profile_id1 oc"
  shows "player_faction_hist d pid = []"
proof -
  from assms have "filter (\<lambda>oc. pid = profile_id0 oc \<or> pid = profile_id1 oc) (outcomes d) = []"
    by (simp add: filter_empty_conv)
  then show ?thesis by (simp add: player_faction_hist_def group_count_def)
qed

text \<open>
  Claim C3. For a player without any game in the ledger the faction histogram is not
  empty but an error: the query returns no group, and unpacking \<^verbatim>\<open>zip(*hist)\<close> into
  two names raises \<^verbatim>\<open>ValueError\<close>.
\<close>

theorem player_faction_stats_no_matches:
  assumes "\<forall>oc \<in> set (outcomes d). pid \<noteq> profile_id0 oc \<and> pid \<noteq> profile_id1 oc"
  shows "get_player_faction_stats d pid = Inl ValueError"
  using player_faction_hist_empty [OF assms]
  by (simp add: get_player_faction_stats_def unzip_pairs_def)

theorem player_faction_stats_no_matches_witness:
  "list_all (\<lambda>oc. 3 \<noteq> profile_id0 oc \<and> 3 \<noteq> profile_id1 oc) (outcomes faction_ledger) \<and>
   map_option profile_name (find_player faction_ledger 3) = Some ''cy'' \<and>
   get_player_faction_stats faction_ledger 3 = Inl ValueError"
proof -
  have h: "\<forall>oc \<in> set (outcomes faction_ledger). 3 \<noteq> profile_id0 oc \<and> 3 \<noteq> profile_id1 oc"
    by (simp add: faction_ledger_def game_outcome_def)
  have f: "map_option profile_name (find_player faction_ledger 3) = Some ''cy''"
    by (simp add: find_player_def faction_ledger_def)
  from player_faction_stats_no_matches [OF h] h f show ?thesis by (simp add: list_all_iff)
qed

section \<open>Properties of the activity timeline\<close>

lemma outcomes_per_day_eq:
  "outcomes_per_day d = group_count (map (\<lambda>oc. sql_date (end_time oc)) (outcomes d))"
  unfolding outcomes_per_day_def
  by (rule sort_key_id_if_sorted) (simp add: group_count_def comp_def)

lemma group_count_nonempty:
  assumes "ks \<noteq> []"
  shows "\<exists>c rest. group_count ks = (Min (set ks), c) # rest"
proof -
  from assms have "set ks \<noteq> {}" by simp
  from sorted_list_of_set_nonempty [OF _ this] show ?thesis
    by (simp add: group_count_def)
qed

lemma all_days_eq:
  assumes "start \<le> today"
  shows "map (\<lambda>n. start + n) (py_range (today - start + 1)) = [start..today]"
proof (rule nth_equalityI)
  show "length (map (\<lambda>n. start + n) (py_range (today - start + 1))) = length [start..today]"
    by (simp add: py_range_def)
next
  fix i assume "i < length (map (\<lambda>n. start + n) (py_range (today - start + 1)))"
  then have i: "i < nat (today - start + 1)" by (simp add: py_range_def)
  then have "start + int i \<le> today" by linarith
  then show "map (\<lambda>n. start + n) (py_range (today - start + 1)) ! i = [start..today] ! i"
    using i by (simp add: py_range_def)
qed

lemma sum_counts:
  assumes "distinct days" and "set ks \<subseteq> set days"
  shows "sum_list (map (\<lambda>dy. int (count_list ks dy)) days) = int (length ks)"
proof -
  have "sum_list (map (\<lambda>dy. int (count_list ks dy)) days) =
          (\<Sum>dy \<in> set days. int (count_list ks dy))"
    using assms(1) by (rule sum_list_distinct_conv_sum_set)
  also have "\<dots> = int (\<Sum>dy \<in> set days. count_list ks dy)" by simp
  also have "(\<Sum>dy \<in> set days. count_list ks dy) = length ks"
    using assms(2) by (intro sum_count_set) simp_all
  finally show ?thesis .
qed

lemma count_list_filter_mem:
  "dy \<in> A \<Longrightarrow> count_list (filter (\<lambda>k. k \<in> A) ks) dy = count_list ks dy"
  by (induction ks) auto

lemma sum_counts_within:
  assumes "distinct days"
  shows "sum_list (map (\<lambda>dy. int (count_list ks dy)) days) =
           int (length (filter (\<lambda>k. k \<in> set days) ks))"
proof -
  have e: "map (\<lambda>dy. int (count_list ks dy)) days =
          map (\<lambda>dy. int (count_list (filter (\<lambda>k. k \<in> set days) ks) dy)) days"
    by (rule map_cong) (simp_all add: count_list_filter_mem)
  have "set (filter (\<lambda>k. k \<in> set days) ks) \<subseteq> set days" by auto
  from sum_counts [OF assms this] show ?thesis unfolding e .
qed

lemma activity_stats_general:
  assumes ne: "outcomes d \<noteq> []"
    and le: "Min ((\<lambda>oc. sql_date (end_time oc)) ` set (outcomes d)) \<le> today"
  shows "get_activity_stats today d =
     (let start = Min ((\<lambda>oc. sql_date (end_time oc)) ` set (outcomes d))
      in Inr \<lparr>act_dates = Some [start..today],
              act_data = Some (map (\<lambda>dy. int (length (filter (\<lambda>oc. sql_date (end_time oc) = dy)
                                                      (outcomes d))))
                                 [start..today]),
              games_per_day =
                rat_of_nat (length (filter (\<lambda>oc. sql_date (end_time oc) \<le> today) (outcomes d)))
                  / rat_of_int (today - start + 1)\<rparr>)"
proof -
  let ?ds = "map (\<lambda>oc. sql_date (end_time oc)) (outcomes d)"
  let ?start = "Min ((\<lambda>oc. sql_date (end_time oc)) ` set (outcomes d))"
  let ?cnt = "\<lambda>dy. int (length (filter (\<lambda>oc. sql_date (end_time oc) = dy) (outcomes d)))"
  have dsne: "?ds \<noteq> []" using ne by simp
  have setds: "set ?ds = (\<lambda>oc. sql_date (end_time oc)) ` set (outcomes d)" by simp
  from group_count_nonempty [OF dsne] obtain c rest where
    gc: "outcomes_per_day d = (?start, c) # rest"
    unfolding outcomes_per_day_eq setds by blast
  have days: "map (\<lambda>n. ?start + n) (py_range (today - ?start + 1)) = [?start..today]"
    using le by (rule all_days_eq)
  have cl: "count_list ?ds dy = length (filter (\<lambda>oc. sql_date (end_time oc) = dy) (outcomes d))"
    for dy
    using count_list_map_filter [of "\<lambda>oc. sql_date (end_time oc)" "\<lambda>_. True" "outcomes d" dy]
    by simp
  have cnt: "dict_get (dict_of (outcomes_per_day d)) dy 0 = ?cnt dy" for dy
  proof -
    have "dict_get (dict_of (outcomes_per_day d)) dy 0 = int (count_list ?ds dy)"
      by (simp add: outcomes_per_day_eq dict_of_group_count dict_get_def map_of_group_count)
    then show ?thesis unfolding cl .
  qed
  let ?records = "map (\<lambda>dy. (dy, ?cnt dy)) [?start..today]"
  let ?R = "dict_of (map (\<lambda>dy. (dy, dict_get (dict_of (outcomes_per_day d)) dy 0))
               (map (\<lambda>n. ?start + n) (py_range (today - ?start + 1))))"
  have rec: "?R = ?records"
    unfolding days cnt by (rule dict_of_distinct) (simp add: comp_def)
  have body: "get_activity_stats today d =
     (case py_truediv (sum_list (map snd ?R)) (int (length ?R)) of
        Inl e \<Rightarrow> Inl e
      | Inr q \<Rightarrow> Inr \<lparr>act_dates = Some (map fst ?R), act_data = Some (map snd ?R),
                       games_per_day = q\<rparr>)"
    unfolding get_activity_stats_def Let_def
    by (subst (1) gc) (simp only: list.case prod.case)
  have keys: "map fst ?records = [?start..today]" by (simp add: comp_def)
  have vals: "map snd ?records = map ?cnt [?start..today]" by (simp add: comp_def)
  have lower: "?start \<le> sql_date (end_time oc)" if "oc \<in> set (outcomes d)" for oc
    using that by (intro Min_le) simp_all
  have "sum_list (map ?cnt [?start..today]) =
          sum_list (map (\<lambda>dy. int (count_list ?ds dy)) [?start..today])"
    by (simp add: cl)
  also have "\<dots> = int (length (filter (\<lambda>k. k \<in> set [?start..today]) ?ds))"
    by (intro sum_counts_within) simp
  also have "length (filter (\<lambda>k. k \<in> set [?start..today]) ?ds) =
               length (filter (\<lambda>oc. sql_date (end_time oc) \<in> set [?start..today]) (outcomes d))"
    by (simp add: filter_map comp_def)
  also have "filter (\<lambda>oc. sql_date (end_time oc) \<in> set [?start..today]) (outcomes d) =
               filter (\<lambda>oc. sql_date (end_time oc) \<le> today) (outcomes d)"
    by (rule filter_cong) (use lower in auto)
  finally have total: "sum_list (map ?cnt [?start..today]) =
      int (length (filter (\<lambda>oc. sql_date (end_time oc) \<le> today) (outcomes d)))" .
  have len: "int (length ?records) = today - ?start + 1" using le by simp
  have nz: "today - ?start + 1 \<noteq> 0" using le by simp
  show ?thesis
    unfolding body rec keys vals total len Let_def
    using nz by (simp add: py_truediv_def)
qed

text \<open>
  Claim C6, as the code has it. For a ledger that is not empty and whose earliest
  recorded date is not after today, the activity timeline lists every calendar date from
  the earliest recorded date through today, the number of outcomes of each of these dates
  (zero for a date without any), and as mean the number of outcomes of these dates divided
  by the number of listed days. When no outcome is dated after today, that is the number
  of all outcomes divided by the number of listed days. For the ledger with outcomes on
  2024-01-01 and 2024-01-04 only and today = 2024-01-04 this gives four consecutive
  dates, the counts \<open>[1, 0, 0, 1]\<close> and the mean \<open>1/2\<close>.
\<close>

theorem activity_timeline:
  "(outcomes d \<noteq> [] \<and> Min ((\<lambda>oc. sql_date (end_time oc)) ` set (outcomes d)) \<le> today \<longrightarrow>
      get_activity_stats today d =
        (let start = Min ((\<lambda>oc. sql_date (end_time oc)) ` set (outcomes d))
         in Inr \<lparr>act_dates = Some [start..today],
                 act_data = Some (map (\<lambda>dy. int (length (filter (\<lambda>oc. sql_date (end_time oc) = dy)
                                                         (outcomes d))))
                                    [start..today]),
                 games_per_day =
                   rat_of_nat (length (filter (\<lambda>oc. sql_date (end_time oc) \<le> today) (outcomes d)))
                     / rat_of_int (today - start + 1)\<rparr>)) \<and>
   (outcomes d \<noteq> [] \<and> (\<forall>oc \<in> set (outcomes d). sql_date (end_time oc) \<le> today) \<longrightarrow>
      (\<exists>st. get_activity_stats today d = Inr st \<and>
         games_per_day st =
           rat_of_nat (length (outcomes d)) / rat_of_nat (length (the (act_dates st))))) \<and>
   get_activity_stats (ymd2ord 2024 1 4) timeline_ledger =
     Inr \<lparr>act_dates = Some [ymd2ord 2024 1 1, ymd2ord 2024 1 2, ymd2ord 2024 1 3, ymd2ord 2024 1 4],
          act_data = Some [1, 0, 0, 1],
          games_per_day = 1 / 2\<rparr>"
proof (intro conjI impI)
  assume "outcomes d \<noteq> [] \<and> Min ((\<lambda>oc. sql_date (end_time oc)) ` set (outcomes d)) \<le> today"
  then show "get_activity_stats today d =
        (let start = Min ((\<lambda>oc. sql_date (end_time oc)) ` set (outcomes d))
         in Inr \<lparr>act_dates = Some [start..today],
                 act_data = Some (map (\<lambda>dy. int (length (filter (\<lambda>oc. sql_date (end_time oc) = dy)
                                                         (outcomes d))))
                                    [start..today]),
                 games_per_day =
                   rat_of_nat (length (filter (\<lambda>oc. sql_date (end_time oc) \<le> today) (outcomes d)))
                     / rat_of_int (today - start + 1)\<rparr>)"
    using activity_stats_general [of d today] by blast
next
  assume a: "outcomes d \<noteq> [] \<and> (\<forall>oc \<in> set (outcomes d). sql_date (end_time oc) \<le> today)"
  let ?start = "Min ((\<lambda>oc. sql_date (end_time oc)) ` set (outcomes d))"
  from a have "?start \<in> (\<lambda>oc. sql_date (end_time oc)) ` set (outcomes d)"
    by (intro Min_in) simp_all
  then obtain oc where "oc \<in> set (outcomes d)" and "?start = sql_date (end_time oc)"
    by (rule imageE)
  with a have le: "?start \<le> today" by metis
  from a have all: "filter (\<lambda>oc. sql_date (end_time oc) \<le> today) (outcomes d) = outcomes d"
    by simp
  have n: "rat_of_nat (nat (today - ?start + 1)) = rat_of_int (today - ?start + 1)"
    using le by simp
  from a have ne: "outcomes d \<noteq> []" by simp
  from activity_stats_general [OF ne le]
  show "\<exists>st. get_activity_stats today d = Inr st \<and>
         games_per_day st =
           rat_of_nat (length (outcomes d)) / rat_of_nat (length (the (act_dates st)))"
    by (simp add: Let_def all n)
next
  show "get_activity_stats (ymd2ord 2024 1 4) timeline_ledger =
     Inr \<lparr>act_dates = Some [ymd2ord 2024 1 1, ymd2ord 2024 1 2, ymd2ord 2024 1 3, ymd2ord 2024 1 4],
          act_data = Some [1, 0, 0, 1],
          games_per_day = 1 / 2\<rparr>"
    by code_simp
qed

theorem activity_timeline_witness:
  "outcomes timeline_ledger \<noteq> [] \<and>
   list_all (\<lambda>oc. sql_date (end_time oc) \<le> ymd2ord 2024 1 6) (outcomes timeline_ledger) \<and>
   Min ((\<lambda>oc. sql_date (end_time oc)) ` set (outcomes timeline_ledger)) = ymd2ord 2024 1 1 \<and>
   ymd2ord 2024 1 1 \<le> ymd2ord 2024 1 6 \<and>
   get_activity_stats (ymd2ord 2024 1 6) timeline_ledger =
     Inr \<lparr>act_dates = Some [ymd2ord 2024 1 1 .. ymd2ord 2024 1 6],
          act_data = Some [1, 0, 0, 1, 0, 0],
          games_per_day = 1 / 3\<rparr>"
proof -
  have ne: "outcomes timeline_ledger \<noteq> []" by (simp add: timeline_ledger_def)
  have past: "\<forall>oc \<in> set (outcomes timeline_ledger). sql_date (end_time oc) \<le> ymd2ord 2024 1 6"
    by code_simp
  have start: "Min ((\<lambda>oc. sql_date (end_time oc)) ` set (outcomes timeline_ledger)) = ymd2ord 2024 1 1"
    by code_simp
  have le: "ymd2ord 2024 1 1 \<le> ymd2ord 2024 1 6" by code_simp
  have data: "map (\<lambda>dy. int (length (filter (\<lambda>oc. sql_date (end_time oc) = dy) (outcomes timeline_ledger))))
                [ymd2ord 2024 1 1 .. ymd2ord 2024 1 6] = [1, 0, 0, 1, 0, 0]"
    by code_simp
  have n: "rat_of_nat (length (filter (\<lambda>oc. sql_date (end_time oc) \<le> ymd2ord 2024 1 6)
                                 (outcomes timeline_ledger)))
             / rat_of_int (ymd2ord 2024 1 6 - ymd2ord 2024 1 1 + 1) = 1 / 3"
    by code_simp
  from activity_timeline [of timeline_ledger "ymd2ord 2024 1 6"] ne le
  have "get_activity_stats (ymd2ord 2024 1 6) timeline_ledger =
     Inr \<lparr>act_dates = Some [ymd2ord 2024 1 1 .. ymd2ord 2024 1 6],
          act_data = Some [1, 0, 0, 1, 0, 0],
          games_per_day = 1 / 3\<rparr>"
    unfolding Let_def start data n by blast
  with ne past start le show ?thesis by (simp add: list_all_iff)
qed

text \<open>
  Claim C6 as stated has the mean equal to the total match count over the number of days,
  for any ledger. With today = 2024-01-02 the ledger of two outcomes (2024-01-01 and
  2024-01-04) gives two days with the counts \<open>[1, 0]\<close> and the mean \<open>1/2\<close>, while the total
  match count over the number of days is \<open>2/2\<close>.
\<close>

theorem activity_timeline_counterexample:
  "get_activity_stats (ymd2ord 2024 1 2) timeline_ledger =
     Inr \<lparr>act_dates = Some [ymd2ord 2024 1 1, ymd2ord 2024 1 2],
          act_data = Some [1, 0],
          games_per_day = 1 / 2\<rparr> \<and>
   rat_of_nat (length (outcomes timeline_ledger)) / rat_of_nat (length [ymd2ord 2024 1 1, ymd2ord 2024 1 2])
     \<noteq> 1 / 2"
  by code_simp

end
